theory Spec2Isabelle
  imports Complex_Main "HOL-Library.Log_Nat"
begin

section \<open>Numbers\<close>

text \<open>
  A JavaScript number is an IEEE 754 double: a finite value, an infinity or NaN. A finite
  double is modelled by the rational it denotes, and every arithmetic operation computes the
  exact result and rounds it with \<open>round_double\<close>: to the nearest double, ties to the even
  significand, with 53 significant bits, the least exponent of the subnormal range and
  overflow to an infinity. The sign of a zero is not tracked: the views divide by stored
  amounts and by positive day counts only.

  Amounts are \<open>decimal(10,2)\<close> columns that reach the views as numbers; an amount field of
  a record holds the value of the double the view received.
\<close>

datatype number = Fin rat | PosInf | NegInf | NaN

definition ilog2 :: "rat \<Rightarrow> int" where
  \<comment> \<open>for \<open>0 < x\<close>, the exponent \<open>e\<close> with \<open>2 powi e \<le> x < 2 powi (e + 1)\<close>\<close>
  "ilog2 x =
     (let d = bitlen (fst (quotient_of x)) - bitlen (snd (quotient_of x))
      in if 2 powi d \<le> x then d else d - 1)"

definition round_half_even :: "rat \<Rightarrow> int" where
  "round_half_even x =
     (let n = \<lfloor>x\<rfloor>; r = x - of_int n
      in if r < 1 / 2 then n
         else if 1 / 2 < r then n + 1
         else if even n then n else n + 1)"

definition ulp_exponent :: "rat \<Rightarrow> int" where
  \<comment> \<open>the exponent of the unit in the last place of the doubles around \<open>x\<close>\<close>
  "ulp_exponent x = max (ilog2 x - 52) (- 1074)"

definition round_magnitude :: "rat \<Rightarrow> rat" where
  "round_magnitude x =
     of_int (round_half_even (x / 2 powi ulp_exponent x)) * 2 powi ulp_exponent x"

definition overflow_threshold :: rat where
  \<comment> \<open>\<open>2 ^ 1024\<close>\<close>
  "overflow_threshold =
     179769313486231590772930519078902473361797697894230657273430081157732675805500963132708477322407536021120113879871393357658789768814416622492847430639474124377767893424865485276302219601246094119453082952085005768838150682342462881473913110540827237163350510684586298239947245938479716304835356329624224137216"

definition round_double :: "rat \<Rightarrow> number" where
  "round_double x =
     (if x = 0 then Fin 0
      else if 0 < x
      then (if overflow_threshold \<le> round_magnitude x then PosInf
            else Fin (round_magnitude x))
      else (if overflow_threshold \<le> round_magnitude (- x) then NegInf
            else Fin (- round_magnitude (- x))))"




fun js_le :: "number \<Rightarrow> number \<Rightarrow> bool" where
  "js_le NaN b = False"
| "js_le a NaN = False"
| "js_le NegInf b = True"
| "js_le a PosInf = True"
| "js_le PosInf b = False"
| "js_le a NegInf = False"
| "js_le (Fin a) (Fin b) = (a \<le> b)"



definition js_ge :: "number \<Rightarrow> number \<Rightarrow> bool" where
  "js_ge a b = js_le b a"


fun js_minus :: "number \<Rightarrow> number \<Rightarrow> number" where
  "js_minus NaN b = NaN"
| "js_minus a NaN = NaN"
| "js_minus PosInf PosInf = NaN"
| "js_minus NegInf NegInf = NaN"
| "js_minus PosInf b = PosInf"
| "js_minus a PosInf = NegInf"
| "js_minus NegInf b = NegInf"
| "js_minus a NegInf = PosInf"
| "js_minus (Fin a) (Fin b) = round_double (a - b)"

fun js_sign :: "number \<Rightarrow> int" where
  "js_sign NaN = 0"
| "js_sign PosInf = 1"
| "js_sign NegInf = - 1"
| "js_sign (Fin a) = (if a < 0 then - 1 else 1)"

fun js_times :: "number \<Rightarrow> number \<Rightarrow> number" where
  "js_times NaN b = NaN"
| "js_times a NaN = NaN"
| "js_times (Fin a) (Fin b) = round_double (a * b)"
| "js_times a b =
     (if a = Fin 0 \<or> b = Fin 0 then NaN
      else if js_sign a = js_sign b then PosInf else NegInf)"

fun js_div :: "number \<Rightarrow> number \<Rightarrow> number" where
  "js_div NaN b = NaN"
| "js_div a NaN = NaN"
| "js_div (Fin a) (Fin b) =
     (if b \<noteq> 0 then round_double (a / b)
      else if a = 0 then NaN
      else if 0 < a then PosInf
      else NegInf)"
| "js_div (Fin a) b = Fin 0"
| "js_div a (Fin b) = (if js_sign a = js_sign (Fin b) then PosInf else NegInf)"
| "js_div a b = NaN"

fun Math_max :: "number \<Rightarrow> number \<Rightarrow> number" where
  "Math_max NaN b = NaN"
| "Math_max a NaN = NaN"
| "Math_max PosInf b = PosInf"
| "Math_max a PosInf = PosInf"
| "Math_max NegInf b = b"
| "Math_max a NegInf = a"
| "Math_max (Fin a) (Fin b) = Fin (max a b)"


section \<open>Dates\<close>

text \<open>
  A \<open>date\<close> column arrives as the text \<open>YYYY-MM-DD\<close>; it is modelled by its day number,
  the days since 1970-01-01. A JavaScript \<open>Date\<close> is its time value, the milliseconds
  since the epoch. \<open>new Date('YYYY-MM-DD')\<close> reads a date-only text as midnight UTC, while
  \<open>getFullYear\<close>, \<open>getMonth\<close>, \<open>getDate\<close>, \<open>setDate\<close> and \<open>setMonth\<close> work in
  local time and \<open>toISOString\<close> prints UTC. The local time zone adjustment \<open>tza\<close>
  (milliseconds east of UTC) is a parameter, taken constant.
\<close>

type_synonym isodate = int
type_synonym timevalue = int

definition msPerDay :: int where
  "msPerDay = 86400000"

definition Day :: "timevalue \<Rightarrow> int" where
  "Day t = t div msPerDay"

definition TimeWithinDay :: "timevalue \<Rightarrow> int" where
  "TimeWithinDay t = t mod msPerDay"

text \<open>The proleptic Gregorian calendar: day number to (year, month 1..12, day 1..31).\<close>

definition civil_from_days :: "int \<Rightarrow> int \<times> int \<times> int" where
  "civil_from_days z0 =
     (let z = z0 + 719468;
          era = z div 146097;
          doe = z - era * 146097;
          yoe = (doe - doe div 1460 + doe div 36524 - doe div 146096) div 365;
          y = yoe + era * 400;
          doy = doe - (365 * yoe + yoe div 4 - yoe div 100);
          mp = (5 * doy + 2) div 153;
          d = doy - (153 * mp + 2) div 5 + 1;
          m = (if mp < 10 then mp + 3 else mp - 9)
      in (if m \<le> 2 then y + 1 else y, m, d))"

definition days_from_civil :: "int \<Rightarrow> int \<Rightarrow> int \<Rightarrow> int" where
  "days_from_civil y0 m d =
     (let y = (if m \<le> 2 then y0 - 1 else y0);
          era = y div 400;
          yoe = y - era * 400;
          doy = (153 * (if 2 < m then m - 3 else m + 9) + 2) div 5 + d - 1;
          doe = yoe * 365 + yoe div 4 - yoe div 100 + doy
      in era * 146097 + doe - 719468)"

definition year_of :: "isodate \<Rightarrow> int" where
  "year_of d = fst (civil_from_days d)"

definition month_of :: "isodate \<Rightarrow> int" where
  "month_of d = fst (snd (civil_from_days d))"

definition day_of :: "isodate \<Rightarrow> int" where
  "day_of d = snd (snd (civil_from_days d))"

definition newDate :: "isodate \<Rightarrow> timevalue" where
  "newDate d = d * msPerDay"

definition LocalTime :: "int \<Rightarrow> timevalue \<Rightarrow> int" where
  "LocalTime tza t = t + tza"

definition UTC :: "int \<Rightarrow> int \<Rightarrow> timevalue" where
  "UTC tza t = t - tza"

definition getFullYear :: "int \<Rightarrow> timevalue \<Rightarrow> int" where
  "getFullYear tza t = year_of (Day (LocalTime tza t))"

definition getMonth :: "int \<Rightarrow> timevalue \<Rightarrow> int" where
  "getMonth tza t = month_of (Day (LocalTime tza t)) - 1"

definition getDate :: "int \<Rightarrow> timevalue \<Rightarrow> int" where
  "getDate tza t = day_of (Day (LocalTime tza t))"

text \<open>
  \<open>MakeDay year month date\<close> with a month counted from 0 that may run past 11 and a day of
  the month that may run past the month's end: the day number of the first of the month,
  plus \<open>date - 1\<close>.
\<close>

definition MakeDay :: "int \<Rightarrow> int \<Rightarrow> int \<Rightarrow> int" where
  "MakeDay year month dt =
     days_from_civil (year + month div 12) (month mod 12 + 1) 1 + dt - 1"

definition setDate :: "int \<Rightarrow> timevalue \<Rightarrow> int \<Rightarrow> timevalue" where
  "setDate tza t dt =
     (let l = LocalTime tza t
      in UTC tza (MakeDay (year_of (Day l)) (month_of (Day l) - 1) dt * msPerDay
                  + TimeWithinDay l))"

definition setMonth :: "int \<Rightarrow> timevalue \<Rightarrow> int \<Rightarrow> timevalue" where
  "setMonth tza t month =
     (let l = LocalTime tza t
      in UTC tza (MakeDay (year_of (Day l)) month (day_of (Day l)) * msPerDay
                  + TimeWithinDay l))"

definition toISOString_date :: "timevalue \<Rightarrow> isodate" where
  \<comment> \<open>\<open>toISOString().split('T')[0]\<close>: the UTC calendar date of a time value\<close>
  "toISOString_date t = Day t"

section \<open>Records of the data gateway\<close>

record Category =
  category_id :: string
  category_user_id :: string
  category_name :: string
  category_color :: string
  category_icon :: string
  category_created_at :: string

record Expense =
  expense_id :: string
  expense_user_id :: string
  expense_category_id :: string
  expense_amount :: rat
  expense_description :: string
  expense_notes :: "string option"
  expense_date :: isodate
  expense_created_at :: string
  expense_category :: "Category option"

datatype period = Weekly | Monthly

record Budget =
  budget_id :: string
  budget_user_id :: string
  budget_category_id :: string
  budget_amount :: rat
  budget_period :: period
  budget_start_date :: isodate
  budget_end_date :: isodate
  budget_created_at :: string
  budget_category :: "Category option"

record SavingsGoal =
  goal_id :: string
  goal_user_id :: string
  goal_title :: string
  goal_target_amount :: rat
  goal_current_amount :: rat
  goal_target_date :: isodate
  goal_created_at :: string
  goal_updated_at :: string

section \<open>Budget progress\<close>


text \<open>The budgets view: expenses of the budget's category dated within the budget's window.\<close>

definition BudgetsList_matches :: "Budget \<Rightarrow> Expense \<Rightarrow> bool" where
  "BudgetsList_matches budget expense =
     (let startDate = newDate (budget_start_date budget);
          endDate = newDate (budget_end_date budget);
          expenseDate = newDate (expense_date expense)
      in expense_category_id expense = budget_category_id budget \<and>
         startDate \<le> expenseDate \<and> expenseDate \<le> endDate)"



definition Dashboard_matches :: "int \<Rightarrow> timevalue \<Rightarrow> Budget \<Rightarrow> Expense \<Rightarrow> bool" where
  "Dashboard_matches tza now budget expense =
     (let currentMonth = getMonth tza now;
          currentYear = getFullYear tza now;
          expenseDate = newDate (expense_date expense)
      in expense_category_id expense = budget_category_id budget \<and>
         getMonth tza expenseDate = currentMonth \<and>
         getFullYear tza expenseDate = currentYear)"

definition name_or :: "Category option \<Rightarrow> string \<Rightarrow> string" where
  \<comment> \<open>\<open>x.category?.name || dflt\<close>: an absent category and an empty name give the default\<close>
  "name_or c dflt =
     (case c of None \<Rightarrow> dflt
      | Some k \<Rightarrow> if category_name k = [] then dflt else category_name k)"

definition color_or :: "Category option \<Rightarrow> string \<Rightarrow> string" where
  "color_or c dflt =
     (case c of None \<Rightarrow> dflt
      | Some k \<Rightarrow> if category_color k = [] then dflt else category_color k)"




section \<open>Dashboard aggregates\<close>

text \<open>
  The month's total and the category totals are added exactly. The scenarios below read them
  at whole amounts, whose sums double addition gives without rounding.
\<close>

definition calculateMonthlySpending :: "int \<Rightarrow> timevalue \<Rightarrow> Expense list \<Rightarrow> rat" where
  "calculateMonthlySpending tza now expenses =
     (let currentMonth = getMonth tza now;
          currentYear = getFullYear tza now
      in foldl (\<lambda>sum expense. sum + expense_amount expense) 0
           (filter (\<lambda>expense.
              (let expenseDate = newDate (expense_date expense)
               in getMonth tza expenseDate = currentMonth \<and>
                  getFullYear tza expenseDate = currentYear)) expenses))"

record CategoryTotal =
  ct_name :: string
  ct_value :: rat
  ct_color :: string

text \<open>
  The accumulator of \<open>getExpensesByCategory\<close> is an object keyed by category name; it is
  modelled as an association list in the order the keys were first written, which is the
  order \<open>Object.values\<close> lists them in (the names the application's categories carry are
  neither integer-like keys nor names of inherited object properties).
\<close>

fun add_value :: "string \<Rightarrow> rat \<Rightarrow> (string \<times> CategoryTotal) list \<Rightarrow> (string \<times> CategoryTotal) list" where
  "add_value k a [] = []"
| "add_value k a ((k', t) # rest) =
     (if k = k' then (k', t\<lparr>ct_value := ct_value t + a\<rparr>) # rest
      else (k', t) # add_value k a rest)"

definition categoryTotals_step ::
  "(string \<times> CategoryTotal) list \<Rightarrow> Expense \<Rightarrow> (string \<times> CategoryTotal) list" where
  "categoryTotals_step acc expense =
     (let categoryName = name_or (expense_category expense) ''Other'';
          categoryColor = color_or (expense_category expense) ''#6B7280'';
          acc' = (if map_of acc categoryName = None
                  then acc @ [(categoryName,
                         \<lparr>ct_name = categoryName, ct_value = 0, ct_color = categoryColor\<rparr>)]
                  else acc)
      in add_value categoryName (expense_amount expense) acc')"

definition getExpensesByCategory :: "Expense list \<Rightarrow> CategoryTotal list" where
  "getExpensesByCategory expenses = map snd (foldl categoryTotals_step [] expenses)"

section \<open>The expense list's filter\<close>

text \<open>
  A string is a sequence of UTF-16 code units. The model's characters are the code units
  0 to 255, the Latin-1 range; strings with a code unit beyond it are outside the model. On
  this range \<open>String.prototype.toLowerCase\<close> works unit by unit: it maps \<open>A\<close> to \<open>Z\<close>
  (65 to 90) and the accented capitals (192 to 222, the multiplication sign 215 apart) to the
  unit 32 above, and leaves every other unit.
\<close>

definition is_upper_unit :: "nat \<Rightarrow> bool" where
  "is_upper_unit n =
     ((65 \<le> n \<and> n \<le> 90) \<or> (192 \<le> n \<and> n \<le> 214) \<or> (216 \<le> n \<and> n \<le> 222))"

definition lower_char :: "char \<Rightarrow> char" where
  "lower_char c =
     (let n = (of_char c :: nat) in if is_upper_unit n then char_of (n + 32) else c)"

definition toLowerCase :: "string \<Rightarrow> string" where
  "toLowerCase s = map lower_char s"

fun startsWith :: "string \<Rightarrow> string \<Rightarrow> bool" where
  "startsWith s [] = True"
| "startsWith [] (c # cs) = False"
| "startsWith (x # xs) (c # cs) = (x = c \<and> startsWith xs cs)"

fun includes_str :: "string \<Rightarrow> string \<Rightarrow> bool" where
  "includes_str [] t = (t = [])"
| "includes_str (x # xs) t = (startsWith (x # xs) t \<or> includes_str xs t)"

definition matchesSearch :: "string \<Rightarrow> Expense \<Rightarrow> bool" where
  "matchesSearch searchTerm expense =
     (includes_str (toLowerCase (expense_description expense)) (toLowerCase searchTerm) \<or>
      (case expense_notes expense of
         None \<Rightarrow> False
       | Some notes \<Rightarrow> includes_str (toLowerCase notes) (toLowerCase searchTerm)))"

definition matchesCategory :: "string \<Rightarrow> Expense \<Rightarrow> bool" where
  "matchesCategory selectedCategory expense =
     (selectedCategory = [] \<or> expense_category_id expense = selectedCategory)"

definition filteredExpenses :: "Expense list \<Rightarrow> string \<Rightarrow> string \<Rightarrow> Expense list" where
  "filteredExpenses expenses searchTerm selectedCategory =
     filter (\<lambda>expense. matchesSearch searchTerm expense \<and>
                        matchesCategory selectedCategory expense) expenses"




section \<open>Gateway calls and view state\<close>

text \<open>
  An awaited gateway call either resolves to a \<open>{ data, error }\<close> pair or rejects. The
  query client reports a failed request by resolving with \<open>data\<close> null and \<open>error\<close> set.
\<close>

datatype request_error = RequestError string

datatype 'a outcome = Resolved "'a list option" "request_error option" | Rejected request_error

definition or_empty :: "'a list option \<Rightarrow> 'a list" where
  \<comment> \<open>\<open>data || []\<close>\<close>
  "or_empty d = (case d of None \<Rightarrow> [] | Some xs \<Rightarrow> xs)"

definition failed :: "'a outcome \<Rightarrow> bool" where
  \<comment> \<open>the gateway reports an error\<close>
  "failed r = (case r of Resolved d e \<Rightarrow> e \<noteq> None | Rejected e \<Rightarrow> True)"

record Dashboard_state =
  d_expenses :: "Expense list"
  d_budgets :: "Budget list"
  d_goals :: "SavingsGoal list"
  d_categories :: "Category list"
  d_loading :: bool
  d_console :: "string list"

definition loadDashboardData ::
  "Category outcome \<Rightarrow> Expense outcome \<Rightarrow> Budget outcome \<Rightarrow> SavingsGoal outcome \<Rightarrow>
   Dashboard_state \<Rightarrow> Dashboard_state" where
  "loadDashboardData categoriesR expensesR budgetsR goalsR st =
     (let caught = (\<lambda>s::Dashboard_state.
            s\<lparr>d_loading := False,
              d_console := d_console s @ [''Error loading dashboard data:'']\<rparr>)
      in case categoriesR of Rejected e \<Rightarrow> caught st
         | Resolved categoriesData _ \<Rightarrow>
       (case expensesR of Rejected e \<Rightarrow> caught st
         | Resolved expensesData _ \<Rightarrow>
       (case budgetsR of Rejected e \<Rightarrow> caught st
         | Resolved budgetsData _ \<Rightarrow>
       (case goalsR of Rejected e \<Rightarrow> caught st
         | Resolved goalsData _ \<Rightarrow>
           st\<lparr>d_categories := or_empty categoriesData,
              d_expenses := or_empty expensesData,
              d_budgets := or_empty budgetsData,
              d_goals := or_empty goalsData,
              d_loading := False\<rparr>))))"

record BudgetsList_state =
  b_budgets :: "Budget list"
  b_expenses :: "Expense list"
  b_loading :: bool
  b_console :: "string list"

definition loadBudgets :: "Budget outcome \<Rightarrow> BudgetsList_state \<Rightarrow> BudgetsList_state" where
  "loadBudgets r st =
     (let caught = st\<lparr>b_loading := False,
                      b_console := b_console st @ [''Error loading budgets:'']\<rparr>
      in case r of
           Rejected e \<Rightarrow> caught
         | Resolved d (Some e) \<Rightarrow> caught
         | Resolved d None \<Rightarrow> st\<lparr>b_budgets := or_empty d, b_loading := False\<rparr>)"

definition BudgetsList_handleDelete ::
  "bool \<Rightarrow> Budget outcome \<Rightarrow> string \<Rightarrow> BudgetsList_state \<Rightarrow> BudgetsList_state" where
  "BudgetsList_handleDelete confirmed r ident st =
     (if \<not> confirmed then st
      else let caught = st\<lparr>b_console := b_console st @ [''Error deleting budget:'']\<rparr>
      in case r of
           Rejected e \<Rightarrow> caught
         | Resolved d (Some e) \<Rightarrow> caught
         | Resolved d None \<Rightarrow>
             st\<lparr>b_budgets := filter (\<lambda>budget. budget_id budget \<noteq> ident) (b_budgets st)\<rparr>)"

record ExpensesList_state =
  e_expenses :: "Expense list"
  e_loading :: bool
  e_searchTerm :: string
  e_selectedCategory :: string
  e_categories :: "Category list"
  e_console :: "string list"

definition loadExpenses :: "Expense outcome \<Rightarrow> ExpensesList_state \<Rightarrow> ExpensesList_state" where
  "loadExpenses r st =
     (let caught = st\<lparr>e_loading := False,
                      e_console := e_console st @ [''Error loading expenses:'']\<rparr>
      in case r of
           Rejected e \<Rightarrow> caught
         | Resolved d (Some e) \<Rightarrow> caught
         | Resolved d None \<Rightarrow> st\<lparr>e_expenses := or_empty d, e_loading := False\<rparr>)"

definition ExpensesList_handleDelete ::
  "bool \<Rightarrow> Expense outcome \<Rightarrow> string \<Rightarrow> ExpensesList_state \<Rightarrow> ExpensesList_state" where
  "ExpensesList_handleDelete confirmed r ident st =
     (if \<not> confirmed then st
      else let caught = st\<lparr>e_console := e_console st @ [''Error deleting expense:'']\<rparr>
      in case r of
           Rejected e \<Rightarrow> caught
         | Resolved d (Some e) \<Rightarrow> caught
         | Resolved d None \<Rightarrow>
             st\<lparr>e_expenses := filter (\<lambda>expense. expense_id expense \<noteq> ident) (e_expenses st)\<rparr>)"

definition ExpensesList_view :: "ExpensesList_state \<Rightarrow> Expense list" where
  \<comment> \<open>the list the view renders\<close>
  "ExpensesList_view st =
     filteredExpenses (e_expenses st) (e_searchTerm st) (e_selectedCategory st)"

section \<open>Sample data\<close>

definition sample_expense :: "string \<Rightarrow> string \<Rightarrow> rat \<Rightarrow> isodate \<Rightarrow> Expense" where
  "sample_expense i c a d =
     \<lparr>expense_id = i, expense_user_id = ''u1'', expense_category_id = c,
      expense_amount = a, expense_description = ''lunch'', expense_notes = None,
      expense_date = d, expense_created_at = [], expense_category = None\<rparr>"

definition sample_budget :: "string \<Rightarrow> rat \<Rightarrow> isodate \<Rightarrow> isodate \<Rightarrow> Budget" where
  "sample_budget c a s e =
     \<lparr>budget_id = ''b1'', budget_user_id = ''u1'', budget_category_id = c,
      budget_amount = a, budget_period = Weekly, budget_start_date = s,
      budget_end_date = e, budget_created_at = [], budget_category = None\<rparr>"

definition sample_list_state :: ExpensesList_state where
  "sample_list_state =
     \<lparr>e_expenses = [sample_expense ''e1'' ''food'' 4 19784, sample_expense ''e2'' ''food'' 12 19786,
                     sample_expense ''e3'' ''gas'' 40 19785],
      e_loading = False, e_searchTerm = ''LUN'', e_selectedCategory = ''food'',
      e_categories = [], e_console = []\<rparr>"

section \<open>Savings goals\<close>

record Recommendation =
  daily :: number
  weekly :: number
  monthly :: number

text \<open>
  \<open>differenceInDays\<close> of the date library the view imports: the number of full days
  between two instants, counted toward zero. The library compares the local wall-clock
  readings of the two dates, which for a constant time zone adjustment differ by the
  difference of the time values.
\<close>

definition differenceInDays :: "timevalue \<Rightarrow> timevalue \<Rightarrow> int" where
  "differenceInDays dateLeft dateRight =
     (if dateRight \<le> dateLeft then (dateLeft - dateRight) div msPerDay
      else - ((dateRight - dateLeft) div msPerDay))"

definition daysLeft :: "timevalue \<Rightarrow> SavingsGoal \<Rightarrow> int" where
  \<comment> \<open>\<open>differenceInDays(new Date(goal.target_date), new Date())\<close>, the clock reading \<open>now\<close>\<close>
  "daysLeft now goal = differenceInDays (newDate (goal_target_date goal)) now"

definition getRecommendedSavings :: "timevalue \<Rightarrow> SavingsGoal \<Rightarrow> Recommendation" where
  "getRecommendedSavings now goal =
     (let remaining = js_minus (Fin (goal_target_amount goal)) (Fin (goal_current_amount goal));
          daysLeft = differenceInDays (newDate (goal_target_date goal)) now
      in if daysLeft \<le> 0 then \<lparr>daily = Fin 0, weekly = Fin 0, monthly = Fin 0\<rparr>
         else (let d = js_div remaining (Fin (of_int daysLeft));
                   w = js_times d (Fin 7);
                   m = js_times d (Fin 30)
               in \<lparr>daily = Math_max (Fin 0) d, weekly = Math_max (Fin 0) w,
                   monthly = Math_max (Fin 0) m\<rparr>))"

text \<open>What a goal's card shows below the progress bar.\<close>

datatype goal_panel = Recommended Recommendation | GoalOverdue int | GoalCompleted

definition isCompleted :: "SavingsGoal \<Rightarrow> bool" where
  "isCompleted goal =
     (let progress = js_times (js_div (Fin (goal_current_amount goal))
                                 (Fin (goal_target_amount goal))) (Fin 100)
      in js_ge progress (Fin 100))"

definition goalPanel :: "timevalue \<Rightarrow> SavingsGoal \<Rightarrow> goal_panel" where
  "goalPanel now goal =
     (let daysLeft = differenceInDays (newDate (goal_target_date goal)) now;
          recommendations = getRecommendedSavings now goal
      in if \<not> isCompleted goal
         then (if 0 < daysLeft then Recommended recommendations else GoalOverdue \<bar>daysLeft\<bar>)
         else GoalCompleted)"

record GoalsList_state =
  g_goals :: "SavingsGoal list"
  g_loading :: bool
  g_console :: "string list"

definition loadGoals :: "SavingsGoal outcome \<Rightarrow> GoalsList_state \<Rightarrow> GoalsList_state" where
  "loadGoals r st =
     (let caught = st\<lparr>g_loading := False,
                      g_console := g_console st @ [''Error loading goals:'']\<rparr>
      in case r of
           Rejected e \<Rightarrow> caught
         | Resolved d (Some e) \<Rightarrow> caught
         | Resolved d None \<Rightarrow> st\<lparr>g_goals := or_empty d, g_loading := False\<rparr>)"

definition GoalsList_handleDelete ::
  "bool \<Rightarrow> SavingsGoal outcome \<Rightarrow> string \<Rightarrow> GoalsList_state \<Rightarrow> GoalsList_state" where
  "GoalsList_handleDelete confirmed r ident st =
     (if \<not> confirmed then st
      else let caught = st\<lparr>g_console := g_console st @ [''Error deleting goal:'']\<rparr>
      in case r of
           Rejected e \<Rightarrow> caught
         | Resolved d (Some e) \<Rightarrow> caught
         | Resolved d None \<Rightarrow>
             st\<lparr>g_goals := filter (\<lambda>goal. goal_id goal \<noteq> ident) (g_goals st)\<rparr>)"

definition sample_goal :: "string \<Rightarrow> rat \<Rightarrow> rat \<Rightarrow> isodate \<Rightarrow> SavingsGoal" where
  "sample_goal i t c d =
     \<lparr>goal_id = i, goal_user_id = ''u1'', goal_title = ''Vacation'', goal_target_amount = t,
      goal_current_amount = c, goal_target_date = d, goal_created_at = [],
      goal_updated_at = []\<rparr>"

text \<open>
  The dashboard's expenses query: \<open>from('expenses').select(..).eq('user_id', uid)
  .order('date', { ascending: false }).limit(10)\<close>, answered over the stored table. Rows
  of equal date come in the table's order, which the database leaves open.
\<close>

definition Dashboard_expenses_query :: "string \<Rightarrow> Expense list \<Rightarrow> Expense outcome" where
  "Dashboard_expenses_query uid table =
     Resolved (Some (take 10 (sort_key (\<lambda>e. - expense_date e)
                                (filter (\<lambda>e. expense_user_id e = uid) table)))) None"

text \<open>The budgets view's expenses query: \<open>from('expenses').select('*').eq('user_id', uid)\<close>.\<close>

definition BudgetsList_expenses_query :: "string \<Rightarrow> Expense list \<Rightarrow> Expense outcome" where
  "BudgetsList_expenses_query uid table =
     Resolved (Some (filter (\<lambda>e. expense_user_id e = uid) table)) None"

definition BudgetsList_loadExpenses ::
  "Expense outcome \<Rightarrow> BudgetsList_state \<Rightarrow> BudgetsList_state" where
  \<comment> \<open>unguarded: a rejection leaves the state as it is, a resolved call sets \<open>data || []\<close>\<close>
  "BudgetsList_loadExpenses r st =
     (case r of Rejected e \<Rightarrow> st | Resolved d _ \<Rightarrow> st\<lparr>b_expenses := or_empty d\<rparr>)"

definition sample_dashboard :: Dashboard_state where
  "sample_dashboard =
     \<lparr>d_expenses = [sample_expense ''e1'' ''food'' 70 19784],
      d_budgets = [sample_budget ''food'' 100 19783 19790],
      d_goals = [sample_goal ''g1'' 1000 200 19793],
      d_categories = [], d_loading = False, d_console = []\<rparr>"

definition empty_dashboard :: Dashboard_state where
  "empty_dashboard =
     \<lparr>d_expenses = [], d_budgets = [], d_goals = [], d_categories = [],
      d_loading = True, d_console = []\<rparr>"

definition sample_table :: "Expense list" where
  "sample_table =
     [sample_expense ''e01'' ''food'' 10 19783, sample_expense ''e02'' ''food'' 10 19784,
      sample_expense ''e03'' ''food'' 10 19785, sample_expense ''e04'' ''food'' 10 19786,
      sample_expense ''e05'' ''food'' 10 19787, sample_expense ''e06'' ''food'' 10 19788,
      sample_expense ''e07'' ''food'' 10 19789, sample_expense ''e08'' ''food'' 10 19790,
      sample_expense ''e09'' ''food'' 10 19791, sample_expense ''e10'' ''food'' 10 19792,
      sample_expense ''e11'' ''food'' 10 19793]"

section \<open>Creating a budget\<close>

record BudgetInsert =
  bi_user_id :: string
  bi_category_id :: string
  bi_amount :: rat
  bi_period :: period
  bi_start_date :: isodate
  bi_end_date :: isodate

text \<open>
  The row \<open>handleSubmit\<close> of the budget form inserts. \<open>startNow\<close> and \<open>endNow\<close> are the
  two readings of the clock, \<open>new Date()\<close>, that open the handler.
\<close>

definition BudgetForm_handleSubmit ::
  "int \<Rightarrow> timevalue \<Rightarrow> timevalue \<Rightarrow> string \<Rightarrow> string \<Rightarrow> rat \<Rightarrow> period \<Rightarrow> BudgetInsert" where
  "BudgetForm_handleSubmit tza startNow endNow uid category amount p =
     (let startDate = startNow;
          endDate = (if p = Weekly
                     then setDate tza endNow (getDate tza startDate + 7)
                     else setMonth tza endNow (getMonth tza startDate + 1))
      in \<lparr>bi_user_id = uid, bi_category_id = category, bi_amount = amount, bi_period = p,
          bi_start_date = toISOString_date startDate,
          bi_end_date = toISOString_date endDate\<rparr>)"

text \<open>
  The specification's reading of a date plus one calendar month: the same day of the
  following month, or that month's last day when it is shorter.
\<close>

definition days_in_month :: "int \<Rightarrow> int \<Rightarrow> int" where
  "days_in_month y m =
     (if m = 12 then days_from_civil (y + 1) 1 1 else days_from_civil y (m + 1) 1)
     - days_from_civil y m 1"

definition spec_plus_one_month :: "isodate \<Rightarrow> isodate" where
  "spec_plus_one_month d =
     (let y = year_of d; m = month_of d;
          y' = (if m = 12 then y + 1 else y);
          m' = (if m = 12 then 1 else m + 1)
      in days_from_civil y' m' (min (day_of d) (days_in_month y' m')))"

section \<open>Properties\<close>

lemma foldl_add_amount:
  "foldl (\<lambda>sum expense. sum + expense_amount expense) a es
     = a + sum_list (map expense_amount es)"
  by (induction es arbitrary: a) simp_all

lemma civil_19783: "civil_from_days 19783 = (2024, 3, 1)"
  by code_simp

subsection \<open>Rounding to a double\<close>

lemma overflow_threshold: "overflow_threshold = 2 ^ 1024"
  by (simp add: overflow_threshold_def)


lemma pw_le: "m \<le> n \<Longrightarrow> (2::rat) powi m \<le> 2 powi n"
  by (rule power_int_increasing) simp_all

lemma pw_less_D: "(2::rat) powi m < 2 powi n \<Longrightarrow> m < n"
  using pw_le [of n m] by (cases "m < n") auto

lemma pw_add: "(2::rat) powi (m + n) = 2 powi m * 2 powi n"
  by (simp add: power_int_add)

lemma pw_diff: "(2::rat) powi (m - n) = 2 powi m / 2 powi n"
  by (simp add: power_int_diff)

lemma pw_nat: "0 \<le> e \<Longrightarrow> (2::rat) powi e = of_int (2 ^ nat e)"
  by (simp add: power_int_nonneg_exp)

lemma bitlen_rat:
  assumes "0 < p"
  shows "(2::rat) powi (bitlen p - 1) \<le> of_int p" and "(of_int p :: rat) < 2 powi bitlen p"
proof -
  from assms have b: "1 \<le> bitlen p" by (auto simp: bitlen_alt_def)
  from bitlen_bounds [OF assms]
  have l: "2 ^ nat (bitlen p - 1) \<le> p" and u: "p < 2 ^ nat (bitlen p)" by simp_all
  have "(of_int (2 ^ nat (bitlen p - 1)) :: rat) \<le> of_int p" using l by (simp only: of_int_le_iff)
  then show "(2::rat) powi (bitlen p - 1) \<le> of_int p" using b by (simp add: pw_nat)
  have "(of_int p :: rat) < of_int (2 ^ nat (bitlen p))" using u by (simp only: of_int_less_iff)
  then show "(of_int p :: rat) < 2 powi bitlen p" using b by (simp add: pw_nat)
qed

lemma ilog2_bounds:
  assumes "0 < x"
  shows "2 powi ilog2 x \<le> x" and "x < 2 powi (ilog2 x + 1)"
proof -
  obtain p q where pq: "quotient_of x = (p, q)" by (cases "quotient_of x")
  have q: "0 < q" using pq by (rule quotient_of_denom_pos)
  have x: "x = of_int p / of_int q" using pq by (rule quotient_of_div)
  have p: "0 < p" using assms q x by (simp add: zero_less_divide_iff)
  define d where "d = bitlen p - bitlen q"
  have qr: "(0::rat) < of_int q" using q by simp
  have "x < 2 powi bitlen p / 2 powi (bitlen q - 1)"
    unfolding x using bitlen_rat [OF p] bitlen_rat [OF q] p
    by (intro frac_less) simp_all
  then have u: "x < 2 powi (d + 1)"
    by (simp add: d_def pw_diff [symmetric] algebra_simps)
  have "2 powi (bitlen p - 1) / 2 powi bitlen q < x"
    unfolding x using bitlen_rat [OF p] bitlen_rat [OF q] q
    by (intro frac_less2) simp_all
  then have l: "2 powi (d - 1) < x"
    by (simp add: d_def pw_diff [symmetric] algebra_simps)
  have i: "ilog2 x = (if 2 powi d \<le> x then d else d - 1)"
    by (simp add: ilog2_def pq d_def)
  show "2 powi ilog2 x \<le> x" using l by (simp add: i)
  show "x < 2 powi (ilog2 x + 1)" using u by (simp add: i)
qed


lemma ilog2_mono:
  assumes "0 < x" and "x \<le> y"
  shows "ilog2 x \<le> ilog2 y"
proof -
  have y: "0 < y" using assms by simp
  have "2 powi ilog2 x < (2::rat) powi (ilog2 y + 1)"
    using ilog2_bounds(1) [OF assms(1)] ilog2_bounds(2) [OF y] assms(2) by simp
  then have "ilog2 x < ilog2 y + 1" by (rule pw_less_D)
  then show ?thesis by simp
qed

lemma rhe_of_int: "round_half_even (of_int n) = n"
  by (simp add: round_half_even_def)

lemma rhe_lower: "\<lfloor>x\<rfloor> \<le> round_half_even x"
  by (simp add: round_half_even_def Let_def)

lemma rhe_upper: "round_half_even x \<le> \<lfloor>x\<rfloor> + 1"
  by (simp add: round_half_even_def Let_def)

lemma rhe_mono:
  assumes "x \<le> y"
  shows "round_half_even x \<le> round_half_even y"
proof (cases "\<lfloor>x\<rfloor> = \<lfloor>y\<rfloor>")
  case True
  then show ?thesis using assms by (auto simp: round_half_even_def Let_def)
next
  case False
  then have "\<lfloor>x\<rfloor> < \<lfloor>y\<rfloor>" using floor_mono [OF assms] by simp
  then show ?thesis using rhe_upper [of x] rhe_lower [of y] by simp
qed

lemma rhe_le_int: "x \<le> of_int n \<Longrightarrow> round_half_even x \<le> n"
  using rhe_mono [of x "of_int n"] by (simp add: rhe_of_int)

lemma rhe_ge_int: "of_int n \<le> x \<Longrightarrow> n \<le> round_half_even x"
  using rhe_mono [of "of_int n" x] by (simp add: rhe_of_int)


lemma ulp_exponent_ge: "- 1074 \<le> ulp_exponent x" and ulp_exponent_ge': "ilog2 x - 52 \<le> ulp_exponent x"
  by (simp_all add: ulp_exponent_def)

lemma ulp_exponent_mono: "0 < x \<Longrightarrow> x \<le> y \<Longrightarrow> ulp_exponent x \<le> ulp_exponent y"
  using ilog2_mono [of x y] by (simp add: ulp_exponent_def)

lemma scaled_less:
  assumes "0 < x"
  shows "x / 2 powi ulp_exponent x < 2 ^ 53"
proof -
  have "x < 2 powi (ilog2 x + 1)" using assms by (rule ilog2_bounds)
  also have "\<dots> \<le> 2 powi (ulp_exponent x + 53)"
    using ulp_exponent_ge' [of x] by (intro pw_le) simp
  also have "\<dots> = 2 ^ 53 * 2 powi ulp_exponent x" by (simp add: pw_add)
  finally show ?thesis by (simp add: pos_divide_less_eq)
qed

lemma scaled_ge:
  assumes "0 < x" and "- 1074 < ulp_exponent x"
  shows "2 ^ 52 \<le> x / 2 powi ulp_exponent x"
proof -
  from assms(2) have e: "ilog2 x = ulp_exponent x + 52" by (simp add: ulp_exponent_def max_def split: if_splits)
  have "2 ^ 52 * 2 powi ulp_exponent x = (2::rat) powi ilog2 x" by (simp add: e pw_add)
  also have "\<dots> \<le> x" using assms(1) by (rule ilog2_bounds)
  finally show ?thesis by (simp add: pos_le_divide_eq)
qed

lemma mantissa_le:
  assumes "0 < x"
  shows "round_half_even (x / 2 powi ulp_exponent x) \<le> 2 ^ 53"
  using scaled_less [OF assms] by (intro rhe_le_int) simp

lemma mantissa_ge:
  assumes "0 < x" and "- 1074 < ulp_exponent x"
  shows "2 ^ 52 \<le> round_half_even (x / 2 powi ulp_exponent x)"
  using scaled_ge [OF assms] by (intro rhe_ge_int) simp

lemma mantissa_nonneg:
  assumes "0 < x"
  shows "0 \<le> round_half_even (x / 2 powi ulp_exponent x)"
  using assms by (intro rhe_ge_int) simp

lemma round_magnitude_nonneg: "0 < x \<Longrightarrow> 0 \<le> round_magnitude x"
  using mantissa_nonneg [of x] by (simp add: round_magnitude_def)



lemma round_magnitude_mono:
  assumes "0 < x" and "x \<le> y"
  shows "round_magnitude x \<le> round_magnitude y"
proof (cases "ulp_exponent x = ulp_exponent y")
  case True
  have "x / 2 powi ulp_exponent y \<le> y / 2 powi ulp_exponent y"
    using assms(2) by (simp add: divide_right_mono)
  then have "round_half_even (x / 2 powi ulp_exponent y) \<le> round_half_even (y / 2 powi ulp_exponent y)"
    by (rule rhe_mono)
  then show ?thesis by (simp add: round_magnitude_def True)
next
  case False
  have y: "0 < y" using assms by simp
  from False have lt: "ulp_exponent x < ulp_exponent y"
    using ulp_exponent_mono [OF assms] by simp
  then have n: "- 1074 < ulp_exponent y" using ulp_exponent_ge [of x] by simp
  have "round_magnitude x \<le> 2 ^ 53 * 2 powi ulp_exponent x"
  proof -
    have "(of_int (round_half_even (x / 2 powi ulp_exponent x)) :: rat) \<le> of_int (2 ^ 53)"
      using mantissa_le [OF assms(1)] by (simp only: of_int_le_iff)
    then show ?thesis by (simp add: round_magnitude_def)
  qed
  also have "\<dots> = 2 powi (ulp_exponent x + 53)" by (simp add: pw_add)
  also have "\<dots> \<le> 2 powi (ulp_exponent y + 52)" using lt by (intro pw_le) simp
  also have "\<dots> = 2 ^ 52 * 2 powi ulp_exponent y" by (simp add: pw_add)
  also have "\<dots> \<le> round_magnitude y"
  proof -
    have "(of_int (2 ^ 52) :: rat) \<le> of_int (round_half_even (y / 2 powi ulp_exponent y))"
      using mantissa_ge [OF y n] by (simp only: of_int_le_iff)
    then show ?thesis by (simp add: round_magnitude_def)
  qed
  finally show ?thesis .
qed

lemma overflow_threshold_pos: "0 < overflow_threshold"
  by (simp add: overflow_threshold_def)

lemma round_double_mono:
  assumes "x \<le> y"
  shows "js_le (round_double x) (round_double y)"
proof -
  consider "x = 0" | "0 < x" | "x < 0 \<and> y < 0" | "x < 0 \<and> 0 \<le> y" by linarith
  then show ?thesis
  proof cases
    case 1
    then show ?thesis
      using assms round_magnitude_nonneg [of y] overflow_threshold_pos
      by (auto simp: round_double_def)
  next
    case 2
    then show ?thesis
      using assms round_magnitude_mono [OF 2 assms] overflow_threshold_pos
      by (auto simp: round_double_def)
  next
    case 3
    then have "0 < - y" "- y \<le> - x" using assms by simp_all
    then have "round_magnitude (- y) \<le> round_magnitude (- x)" by (rule round_magnitude_mono)
    then show ?thesis using 3 by (auto simp: round_double_def)
  next
    case 4
    then show ?thesis
      using round_magnitude_nonneg [of "- x"] round_magnitude_nonneg [of y] overflow_threshold_pos
      by (auto simp: round_double_def)
  qed
qed























subsection \<open>Budget progress arithmetic\<close>





lemma cents_exact_sum:
  "(14806 / 100 + 16641 / 100 + 28019 / 100 + 19248 / 100 :: rat) = 78714 / 100"
  by simp


subsection \<open>Filtering the expense list\<close>









lemma filteredExpenses_coffee:
  "filteredExpenses
     [(sample_expense ''e1'' ''food'' 4 19784)\<lparr>expense_description := ''Morning COFFEE''\<rparr>,
      (sample_expense ''e2'' ''gas'' 40 19785)\<lparr>expense_notes := Some ''with a Coffee stop''\<rparr>,
      sample_expense ''e3'' ''food'' 12 19786] ''coffee'' []
   = [(sample_expense ''e1'' ''food'' 4 19784)\<lparr>expense_description := ''Morning COFFEE''\<rparr>,
      (sample_expense ''e2'' ''gas'' 40 19785)\<lparr>expense_notes := Some ''with a Coffee stop''\<rparr>]"
  by code_simp

lemma filteredExpenses_coffee_food:
  "filteredExpenses
     [(sample_expense ''e1'' ''food'' 4 19784)\<lparr>expense_description := ''Morning COFFEE''\<rparr>,
      (sample_expense ''e2'' ''gas'' 40 19785)\<lparr>expense_notes := Some ''with a Coffee stop''\<rparr>,
      sample_expense ''e3'' ''food'' 12 19786] ''coffee'' ''food''
   = [(sample_expense ''e1'' ''food'' 4 19784)\<lparr>expense_description := ''Morning COFFEE''\<rparr>]"
  by code_simp

lemma toLowerCase_accented:
  "toLowerCase [CHR ''C'', CHR ''A'', CHR ''F'', char_of (201 :: nat)] =
     [CHR ''c'', CHR ''a'', CHR ''f'', char_of (233 :: nat)] \<and>
   lower_char (char_of (215 :: nat)) = char_of (215 :: nat) \<and>
   lower_char (char_of (223 :: nat)) = char_of (223 :: nat)"
  by code_simp

subsection \<open>Deleting a record\<close>

lemma filteredExpenses_remove:
  "filteredExpenses (filter P expenses) searchTerm selectedCategory =
     filter P (filteredExpenses expenses searchTerm selectedCategory)"
  by (auto simp: filteredExpenses_def intro: filter_cong)

text \<open>
  C10. After a confirmed delete of the record with id \<open>x\<close> that the gateway accepts, the
  view's collection is the prior collection without the records whose id is \<open>x\<close>, every
  other record unchanged and in place; the rendered list of expenses, filtered by search
  term and category, is the prior rendered list without those records and no longer
  contains the id. The budgets view removes a deleted budget in the same way.
\<close>

theorem delete_removes_record:
  "e_expenses (ExpensesList_handleDelete True (Resolved d None) x st) =
     filter (\<lambda>expense. expense_id expense \<noteq> x) (e_expenses st) \<and>
   ExpensesList_view (ExpensesList_handleDelete True (Resolved d None) x st) =
     filter (\<lambda>expense. expense_id expense \<noteq> x) (ExpensesList_view st) \<and>
   (\<forall>expense \<in> set (ExpensesList_view (ExpensesList_handleDelete True (Resolved d None) x st)).
      expense_id expense \<noteq> x) \<and>
   b_budgets (BudgetsList_handleDelete True (Resolved d' None) x st') =
     filter (\<lambda>budget. budget_id budget \<noteq> x) (b_budgets st')"
  by (simp add: ExpensesList_handleDelete_def BudgetsList_handleDelete_def ExpensesList_view_def
        filteredExpenses_remove)


lemma sample_list_view:
  "ExpensesList_view sample_list_state =
     [sample_expense ''e1'' ''food'' 4 19784, sample_expense ''e2'' ''food'' 12 19786]"
  by code_simp

lemma sample_list_view_without_e1:
  "filter (\<lambda>expense. expense_id expense \<noteq> ''e1'')
     [sample_expense ''e1'' ''food'' 4 19784, sample_expense ''e2'' ''food'' 12 19786] =
   [sample_expense ''e2'' ''food'' 12 19786]"
  by code_simp

theorem delete_removes_record_witness:
  "ExpensesList_view sample_list_state =
     [sample_expense ''e1'' ''food'' 4 19784, sample_expense ''e2'' ''food'' 12 19786] \<and>
   ExpensesList_view
     (ExpensesList_handleDelete True (Resolved None None) ''e1'' sample_list_state) =
     [sample_expense ''e2'' ''food'' 12 19786]"
proof -
  have "ExpensesList_view
          (ExpensesList_handleDelete True (Resolved None None) ''e1'' sample_list_state) =
        filter (\<lambda>expense. expense_id expense \<noteq> ''e1'') (ExpensesList_view sample_list_state)"
    using delete_removes_record [of None "''e1''" sample_list_state] by blast
  then show ?thesis
    by (simp only: sample_list_view sample_list_view_without_e1 simp_thms)
qed

subsection \<open>Recommended savings pace\<close>

lemma round_double_0: "round_double 0 = Fin 0"
  by (simp add: round_double_def)

lemma nonpositive_pace:
  assumes "js_le n (Fin 0)" and "0 < c"
  shows "Math_max (Fin 0) (js_div n (Fin c)) = Fin 0 \<and> js_le (js_div n (Fin c)) (Fin 0) \<and>
         Math_max (Fin 0) (js_times n (Fin c)) = Fin 0"
proof (cases n)
  case (Fin q)
  with assms(1) have q: "q \<le> 0" by simp
  have "q / c \<le> 0" using q assms(2) by (simp add: divide_le_0_iff)
  then have d: "js_le (round_double (q / c)) (Fin 0)"
    using round_double_mono [of "q / c" 0] by (simp add: round_double_0)
  have "q * c \<le> 0" using q assms(2) by (simp add: mult_le_0_iff)
  then have t: "js_le (round_double (q * c)) (Fin 0)"
    using round_double_mono [of "q * c" 0] by (simp add: round_double_0)
  have m: "js_le x (Fin 0) \<Longrightarrow> Math_max (Fin 0) x = Fin 0" for x
    by (cases x) simp_all
  show ?thesis using d t m assms(2) by (simp add: Fin)
next
  case PosInf
  with assms(1) show ?thesis by simp
next
  case NegInf
  then show ?thesis using assms(2) by simp
next
  case NaN
  with assms(1) show ?thesis by simp
qed

lemma getRecommendedSavings_reached:
  assumes "goal_target_amount goal \<le> goal_current_amount goal"
  shows "getRecommendedSavings now goal = \<lparr>daily = Fin 0, weekly = Fin 0, monthly = Fin 0\<rparr>"
proof (cases "daysLeft now goal \<le> 0")
  case True
  then show ?thesis by (simp add: getRecommendedSavings_def daysLeft_def Let_def)
next
  case False
  define r where "r = js_minus (Fin (goal_target_amount goal)) (Fin (goal_current_amount goal))"
  define n :: rat where "n = of_int (daysLeft now goal)"
  have n: "0 < n" using False by (simp add: n_def)
  have "goal_target_amount goal - goal_current_amount goal \<le> 0" using assms by simp
  then have r: "js_le r (Fin 0)"
    using round_double_mono [of "goal_target_amount goal - goal_current_amount goal" 0]
    by (simp add: r_def round_double_0)
  have d: "Math_max (Fin 0) (js_div r (Fin n)) = Fin 0" and d': "js_le (js_div r (Fin n)) (Fin 0)"
    using nonpositive_pace [OF r n] by simp_all
  have w: "Math_max (Fin 0) (js_times (js_div r (Fin n)) (Fin 7)) = Fin 0"
    using nonpositive_pace [OF d', of 7] by simp
  have m: "Math_max (Fin 0) (js_times (js_div r (Fin n)) (Fin 30)) = Fin 0"
    using nonpositive_pace [OF d', of 30] by simp
  show ?thesis
    using False d w m
    by (simp add: getRecommendedSavings_def daysLeft_def Let_def r_def n_def)
qed

lemma daysLeft_ten_days_out:
  assumes "goal_target_date goal = Day now + 10"
  shows "daysLeft now goal = (if TimeWithinDay now = 0 then 10 else 9)"
proof -
  define q where "q = now div 86400000"
  define r where "r = now mod 86400000"
  have now: "now = q * 86400000 + r" and r: "0 \<le> r" "r < 86400000"
    by (simp_all add: q_def r_def)
  have "(q + 10) * 86400000 - now = 10 * 86400000 - r" using now by (simp add: algebra_simps)
  moreover have "(10 * 86400000 - r) div 86400000 = (if r = 0 then 10 else 9)"
    using r by auto
  moreover have "now \<le> (q + 10) * 86400000" using now r by simp
  ultimately show ?thesis
    by (simp add: daysLeft_def differenceInDays_def newDate_def msPerDay_def Day_def
          TimeWithinDay_def assms q_def [symmetric] r_def [symmetric])
qed

lemma pace_of_800_over_10:
  "(let d = js_div (js_minus (Fin 1000) (Fin 200)) (Fin (of_int 10))
    in \<lparr>daily = Math_max (Fin 0) d, weekly = Math_max (Fin 0) (js_times d (Fin 7)),
        monthly = Math_max (Fin 0) (js_times d (Fin 30))\<rparr>) =
   \<lparr>daily = Fin 80, weekly = Fin 560, monthly = Fin 2400\<rparr>"
  by code_simp

lemma pace_of_800_over_9:
  "(let d = js_div (js_minus (Fin 1000) (Fin 200)) (Fin (of_int 9))
    in \<lparr>daily = Math_max (Fin 0) d, weekly = Math_max (Fin 0) (js_times d (Fin 7)),
        monthly = Math_max (Fin 0) (js_times d (Fin 30))\<rparr>) =
   \<lparr>daily = Fin (3127499741229511 / 35184372088832),
     weekly = Fin (1368281136787911 / 2199023255552),
     monthly = Fin (5864062014805333 / 2199023255552)\<rparr>"
  by code_simp

lemma pace_of_100_over_3:
  "getRecommendedSavings (newDate 19790) (sample_goal ''g1'' 300 200 19793) =
     \<lparr>daily = Fin (4691249611844267 / 140737488355328),
       weekly = Fin (8209686820727467 / 35184372088832),
       monthly = Fin (8796093022208001 / 8796093022208)\<rparr> \<and>
   (8796093022208001 / 8796093022208 :: rat) \<noteq> 1000"
  by code_simp

lemma getRecommendedSavings_ten_days_out:
  assumes "goal_target_date goal = Day now + 10"
    and "goal_target_amount goal = 1000" and "goal_current_amount goal = 200"
  shows "getRecommendedSavings now goal =
           (if TimeWithinDay now = 0
            then \<lparr>daily = Fin 80, weekly = Fin 560, monthly = Fin 2400\<rparr>
            else \<lparr>daily = Fin (3127499741229511 / 35184372088832),
                   weekly = Fin (1368281136787911 / 2199023255552),
                   monthly = Fin (5864062014805333 / 2199023255552)\<rparr>)"
proof -
  have g: "getRecommendedSavings now goal =
      (if daysLeft now goal \<le> 0 then \<lparr>daily = Fin 0, weekly = Fin 0, monthly = Fin 0\<rparr>
       else (let d = js_div (js_minus (Fin 1000) (Fin 200)) (Fin (of_int (daysLeft now goal)))
             in \<lparr>daily = Math_max (Fin 0) d, weekly = Math_max (Fin 0) (js_times d (Fin 7)),
                 monthly = Math_max (Fin 0) (js_times d (Fin 30))\<rparr>))"
    by (simp only: getRecommendedSavings_def daysLeft_def Let_def assms(2,3))
  show ?thesis
  proof (cases "TimeWithinDay now = 0")
    case True
    then have "daysLeft now goal = 10" using daysLeft_ten_days_out [OF assms(1)] by simp
    then show ?thesis using pace_of_800_over_10 by (simp only: g True if_True) simp
  next
    case False
    then have "daysLeft now goal = 9" using daysLeft_ten_days_out [OF assms(1)] by simp
    then show ?thesis using pace_of_800_over_9 by (simp only: g False if_False) simp
  qed
qed

text \<open>
  The card of a goal that has reached its target shows the completed banner whatever the
  days left, so a completed goal three days past its date is not reported overdue. And a
  goal of 1000 with 200 saved whose target date is ten days after the current day, read at
  noon, has nine full days left and is recommended 88.89 a day, not 80.
\<close>

theorem overdue_counterexample:
  "daysLeft (newDate 19786) (sample_goal ''g1'' 1000 1000 19783) = - 3 \<and>
   goalPanel (newDate 19786) (sample_goal ''g1'' 1000 1000 19783) = GoalCompleted \<and>
   goalPanel (newDate 19786) (sample_goal ''g1'' 1000 1000 19783) \<noteq> GoalOverdue 3 \<and>
   goal_target_date (sample_goal ''g1'' 1000 200 19793) = Day (newDate 19783 + 43200000) + 10 \<and>
   daysLeft (newDate 19783 + 43200000) (sample_goal ''g1'' 1000 200 19793) = 9 \<and>
   getRecommendedSavings (newDate 19783 + 43200000) (sample_goal ''g1'' 1000 200 19793) =
     \<lparr>daily = Fin (3127499741229511 / 35184372088832),
       weekly = Fin (1368281136787911 / 2199023255552),
       monthly = Fin (5864062014805333 / 2199023255552)\<rparr> \<and>
   getRecommendedSavings (newDate 19783 + 43200000) (sample_goal ''g1'' 1000 200 19793) \<noteq>
     \<lparr>daily = Fin 80, weekly = Fin 560, monthly = Fin 2400\<rparr>"
  by code_simp

text \<open>
  C6, amended. For every savings goal and clock reading, with \<open>daysLeft\<close> the number of full
  days from the clock reading to the target date's midnight UTC, \<open>getRecommendedSavings\<close>
  returns all-zero paces when \<open>daysLeft \<le> 0\<close>; otherwise, with
  \<open>remaining = target_amount - current_amount\<close> (not floored), it returns
  \<open>daily = remaining / daysLeft\<close>, \<open>weekly = daily * 7\<close> and \<open>monthly = daily * 30\<close>, in
  double arithmetic, each floored at 0, so that a goal at or past its target is recommended
  0. The card reports a goal that has not reached its target as overdue by \<open>\<bar>daysLeft\<bar>\<close>
  days when \<open>daysLeft < 0\<close>, and shows a goal that has reached it as completed, whatever the
  days left. A target date ten days after the current day leaves ten full days at midnight
  UTC and nine at any later time of the day: target 1000 and current 200 then give 80, 560
  and 2400 at midnight, and 88.89, 622.22 and 2666.67 later in the day.
\<close>

theorem recommendedSavingsPace:
  "getRecommendedSavings now goal =
     (if daysLeft now goal \<le> 0 then \<lparr>daily = Fin 0, weekly = Fin 0, monthly = Fin 0\<rparr>
      else (let remaining = js_minus (Fin (goal_target_amount goal))
                              (Fin (goal_current_amount goal));
                d = js_div remaining (Fin (of_int (daysLeft now goal)))
            in \<lparr>daily = Math_max (Fin 0) d,
                weekly = Math_max (Fin 0) (js_times d (Fin 7)),
                monthly = Math_max (Fin 0) (js_times d (Fin 30))\<rparr>)) \<and>
   (goal_target_amount goal \<le> goal_current_amount goal \<longrightarrow>
      getRecommendedSavings now goal = \<lparr>daily = Fin 0, weekly = Fin 0, monthly = Fin 0\<rparr>) \<and>
   (daysLeft now goal < 0 \<and> \<not> isCompleted goal \<longrightarrow>
      goalPanel now goal = GoalOverdue \<bar>daysLeft now goal\<bar>) \<and>
   (isCompleted goal \<longrightarrow> goalPanel now goal = GoalCompleted) \<and>
   (goal_target_date goal = Day now + 10 \<longrightarrow>
      daysLeft now goal = (if TimeWithinDay now = 0 then 10 else 9)) \<and>
   (goal_target_date goal = Day now + 10 \<and> goal_target_amount goal = 1000 \<and>
    goal_current_amount goal = 200 \<longrightarrow>
      getRecommendedSavings now goal =
        (if TimeWithinDay now = 0
         then \<lparr>daily = Fin 80, weekly = Fin 560, monthly = Fin 2400\<rparr>
         else \<lparr>daily = Fin (3127499741229511 / 35184372088832),
                weekly = Fin (1368281136787911 / 2199023255552),
                monthly = Fin (5864062014805333 / 2199023255552)\<rparr>))"
proof (intro conjI impI)
  show "getRecommendedSavings now goal =
     (if daysLeft now goal \<le> 0 then \<lparr>daily = Fin 0, weekly = Fin 0, monthly = Fin 0\<rparr>
      else (let remaining = js_minus (Fin (goal_target_amount goal))
                              (Fin (goal_current_amount goal));
                d = js_div remaining (Fin (of_int (daysLeft now goal)))
            in \<lparr>daily = Math_max (Fin 0) d,
                weekly = Math_max (Fin 0) (js_times d (Fin 7)),
                monthly = Math_max (Fin 0) (js_times d (Fin 30))\<rparr>))"
    by (simp add: getRecommendedSavings_def daysLeft_def Let_def)
next
  assume "goal_target_amount goal \<le> goal_current_amount goal"
  then show "getRecommendedSavings now goal = \<lparr>daily = Fin 0, weekly = Fin 0, monthly = Fin 0\<rparr>"
    by (rule getRecommendedSavings_reached)
next
  assume "daysLeft now goal < 0 \<and> \<not> isCompleted goal"
  then show "goalPanel now goal = GoalOverdue \<bar>daysLeft now goal\<bar>"
    by (simp add: goalPanel_def daysLeft_def Let_def)
next
  assume "isCompleted goal"
  then show "goalPanel now goal = GoalCompleted"
    by (simp add: goalPanel_def Let_def)
next
  assume "goal_target_date goal = Day now + 10"
  then show "daysLeft now goal = (if TimeWithinDay now = 0 then 10 else 9)"
    by (rule daysLeft_ten_days_out)
next
  assume "goal_target_date goal = Day now + 10 \<and> goal_target_amount goal = 1000 \<and>
    goal_current_amount goal = 200"
  then show "getRecommendedSavings now goal =
        (if TimeWithinDay now = 0
         then \<lparr>daily = Fin 80, weekly = Fin 560, monthly = Fin 2400\<rparr>
         else \<lparr>daily = Fin (3127499741229511 / 35184372088832),
                weekly = Fin (1368281136787911 / 2199023255552),
                monthly = Fin (5864062014805333 / 2199023255552)\<rparr>)"
    using getRecommendedSavings_ten_days_out by blast
qed

lemma sample_goal_fields:
  "goal_target_date (sample_goal i t c d) = d \<and> goal_target_amount (sample_goal i t c d) = t \<and>
   goal_current_amount (sample_goal i t c d) = c"
  by (simp add: sample_goal_def)

lemma sample_goal_overdue:
  "daysLeft (newDate 19786) (sample_goal ''g1'' 1000 200 19783) = - 3 \<and>
   \<not> isCompleted (sample_goal ''g1'' 1000 200 19783)"
  by code_simp

lemma sample_goal_midnight:
  "TimeWithinDay (newDate 19783) = 0 \<and> Day (newDate 19783) + 10 = 19793"
  by code_simp

theorem recommendedSavingsPace_witness:
  "getRecommendedSavings (newDate 19783) (sample_goal ''g1'' 1000 200 19793) =
     \<lparr>daily = Fin 80, weekly = Fin 560, monthly = Fin 2400\<rparr> \<and>
   goalPanel (newDate 19786) (sample_goal ''g1'' 1000 200 19783) = GoalOverdue 3 \<and>
   getRecommendedSavings (newDate 19783) (sample_goal ''g2'' 100 500 19793) =
     \<lparr>daily = Fin 0, weekly = Fin 0, monthly = Fin 0\<rparr>"
proof -
  have m: "TimeWithinDay (newDate 19783) = 0" using sample_goal_midnight by blast
  have "goal_target_date (sample_goal ''g1'' 1000 200 19793) = Day (newDate 19783) + 10 \<and>
        goal_target_amount (sample_goal ''g1'' 1000 200 19793) = 1000 \<and>
        goal_current_amount (sample_goal ''g1'' 1000 200 19793) = 200"
    using sample_goal_midnight by (simp add: sample_goal_fields)
  then have "getRecommendedSavings (newDate 19783) (sample_goal ''g1'' 1000 200 19793) =
        (if TimeWithinDay (newDate 19783) = 0
         then \<lparr>daily = Fin 80, weekly = Fin 560, monthly = Fin 2400\<rparr>
         else \<lparr>daily = Fin (3127499741229511 / 35184372088832),
                weekly = Fin (1368281136787911 / 2199023255552),
                monthly = Fin (5864062014805333 / 2199023255552)\<rparr>)"
    using recommendedSavingsPace [of "newDate 19783" "sample_goal ''g1'' 1000 200 19793"]
    by blast
  then have a: "getRecommendedSavings (newDate 19783) (sample_goal ''g1'' 1000 200 19793) =
     \<lparr>daily = Fin 80, weekly = Fin 560, monthly = Fin 2400\<rparr>"
    by (simp only: m if_True simp_thms)
  have "goalPanel (newDate 19786) (sample_goal ''g1'' 1000 200 19783) =
          GoalOverdue \<bar>daysLeft (newDate 19786) (sample_goal ''g1'' 1000 200 19783)\<bar>"
    using recommendedSavingsPace [of "newDate 19786" "sample_goal ''g1'' 1000 200 19783"]
      sample_goal_overdue
    by simp
  then have b: "goalPanel (newDate 19786) (sample_goal ''g1'' 1000 200 19783) = GoalOverdue 3"
    using sample_goal_overdue by simp
  have "goal_target_amount (sample_goal ''g2'' 100 500 19793)
          \<le> goal_current_amount (sample_goal ''g2'' 100 500 19793)"
    by (simp add: sample_goal_fields)
  then have c: "getRecommendedSavings (newDate 19783) (sample_goal ''g2'' 100 500 19793) =
     \<lparr>daily = Fin 0, weekly = Fin 0, monthly = Fin 0\<rparr>"
    using recommendedSavingsPace [of "newDate 19783" "sample_goal ''g2'' 100 500 19793"]
    by blast
  from a b c show ?thesis by (simp only: simp_thms)
qed

subsection \<open>Loading a view's data\<close>

lemma guarded_loads_keep_collection:
  assumes "failed r1" and "failed r2" and "failed r3"
  shows "b_budgets (loadBudgets r1 st1) = b_budgets st1 \<and>
         b_console (loadBudgets r1 st1) = b_console st1 @ [''Error loading budgets:''] \<and>
         e_expenses (loadExpenses r2 st2) = e_expenses st2 \<and>
         e_console (loadExpenses r2 st2) = e_console st2 @ [''Error loading expenses:''] \<and>
         g_goals (loadGoals r3 st3) = g_goals st3 \<and>
         g_console (loadGoals r3 st3) = g_console st3 @ [''Error loading goals:'']"
  using assms
  by (auto simp: failed_def loadBudgets_def loadExpenses_def loadGoals_def Let_def
        split: outcome.splits option.splits)

lemma dashboard_rejected_keeps:
  "d_expenses (loadDashboardData (Rejected e) r2 r3 r4 st) = d_expenses st \<and>
   d_budgets (loadDashboardData (Rejected e) r2 r3 r4 st) = d_budgets st \<and>
   d_goals (loadDashboardData (Rejected e) r2 r3 r4 st) = d_goals st \<and>
   d_categories (loadDashboardData (Rejected e) r2 r3 r4 st) = d_categories st"
  by (simp add: loadDashboardData_def)

text \<open>
  C8. A load that fails should leave the view's collections as they were and log the
  failure. The list views' loaders do so (\<open>guarded_loads_keep_collection\<close>): they test the
  \<open>error\<close> the gateway resolved with. The dashboard's combined load reads only \<open>data\<close>: when
  its four requests resolve with an error, it replaces a dashboard holding one expense, one
  budget and one goal by empty collections and logs nothing.
\<close>

theorem dashboard_failed_load_clears:
  "failed (Resolved None (Some (RequestError ''Failed to fetch'')) :: Expense outcome) \<and>
   d_expenses sample_dashboard = [sample_expense ''e1'' ''food'' 70 19784] \<and>
   loadDashboardData
     (Resolved None (Some (RequestError ''Failed to fetch'')))
     (Resolved None (Some (RequestError ''Failed to fetch'')))
     (Resolved None (Some (RequestError ''Failed to fetch'')))
     (Resolved None (Some (RequestError ''Failed to fetch''))) sample_dashboard
   = \<lparr>d_expenses = [], d_budgets = [], d_goals = [], d_categories = [],
      d_loading = False, d_console = []\<rparr>"
  by (simp add: failed_def loadDashboardData_def sample_dashboard_def or_empty_def)

subsection \<open>What the dashboard aggregates over\<close>

lemma sample_table_length: "length sample_table = 11"
  by (simp add: sample_table_def)

text \<open>
  C4. The dashboard's totals should range over the user's whole expense collection. Its
  query keeps the ten most recent expenses only: for a user with eleven expenses of 10 each
  in March 2024, the whole collection (as the budgets view loads it) spends 110 in the
  month, and the dashboard's monthly spending over what it loaded is 100.
\<close>

theorem dashboard_totals_truncated:
  "calculateMonthlySpending 0 (newDate 19797)
     (or_empty (case BudgetsList_expenses_query ''u1'' sample_table of
                  Resolved d e \<Rightarrow> d | Rejected e \<Rightarrow> None)) = 110 \<and>
   calculateMonthlySpending 0 (newDate 19797)
     (d_expenses (loadDashboardData (Resolved (Some []) None)
                    (Dashboard_expenses_query ''u1'' sample_table)
                    (Resolved (Some []) None) (Resolved (Some []) None) empty_dashboard)) = 100"
  by code_simp

subsection \<open>Reference windows\<close>

lemma Day_newDate: "0 \<le> tza \<Longrightarrow> tza < msPerDay \<Longrightarrow> Day (LocalTime tza (newDate d)) = d"
  by (simp add: Day_def LocalTime_def newDate_def msPerDay_def)

lemma BudgetsList_matches_window:
  "BudgetsList_matches b e \<longleftrightarrow>
     expense_category_id e = budget_category_id b \<and>
     budget_start_date b \<le> expense_date e \<and> expense_date e \<le> budget_end_date b"
  by (simp add: BudgetsList_matches_def newDate_def msPerDay_def)

lemma Dashboard_matches_east_of_utc:
  assumes "0 \<le> tza" and "tza < msPerDay"
  shows "Dashboard_matches tza now b e \<longleftrightarrow>
     expense_category_id e = budget_category_id b \<and>
     month_of (expense_date e) = month_of (Day (LocalTime tza now)) \<and>
     year_of (expense_date e) = year_of (Day (LocalTime tza now))"
  using assms
  by (simp add: Dashboard_matches_def getMonth_def getFullYear_def Day_newDate Let_def)

lemma windows_differ:
  "civil_from_days 19802 = (2024, 3, 20) \<and>
   Dashboard_matches 0 (newDate 19787)
     (sample_budget ''food'' 100 19783 19790) (sample_expense ''e1'' ''food'' 70 19802) \<and>
   \<not> BudgetsList_matches
     (sample_budget ''food'' 100 19783 19790) (sample_expense ''e1'' ''food'' 70 19802)"
  by code_simp

text \<open>
  C2. The budgets view counts exactly the expenses of the budget's category dated within
  \<open>[start_date, end_date]\<close> (\<open>BudgetsList_matches_window\<close>), and the two windows differ
  (\<open>windows_differ\<close>). The dashboard should count exactly the expenses of the category
  dated in the current calendar month and year; it does where local time is UTC or east of
  it (\<open>Dashboard_matches_east_of_utc\<close>). It reads the expense's date as midnight UTC and
  takes that instant's local month: five hours west of UTC, at local noon of 2024-03-05, an
  expense dated 2024-03-01 is left out of March and one dated 2024-04-01 is counted in it.
\<close>

theorem dashboard_month_west_of_utc:
  "civil_from_days (Day (LocalTime (-18000000) (newDate 19787 + 61200000))) = (2024, 3, 5) \<and>
   civil_from_days 19783 = (2024, 3, 1) \<and>
   \<not> Dashboard_matches (-18000000) (newDate 19787 + 61200000)
        (sample_budget ''food'' 100 19783 19790) (sample_expense ''e1'' ''food'' 70 19783) \<and>
   civil_from_days 19814 = (2024, 4, 1) \<and>
   Dashboard_matches (-18000000) (newDate 19787 + 61200000)
        (sample_budget ''food'' 100 19783 19790) (sample_expense ''e2'' ''food'' 70 19814)"
  by code_simp

subsection \<open>Monthly spending and category totals\<close>

lemma add_value_sum:
  "k \<in> fst ` set acc \<Longrightarrow>
   sum_list (map (ct_value \<circ> snd) (add_value k a acc)) =
   sum_list (map (ct_value \<circ> snd) acc) + a"
proof (induction acc)
  case Nil
  then show ?case by simp
next
  case (Cons p acc)
  obtain k' t where p: "p = (k', t)" by (cases p)
  show ?case
  proof (cases "k = k'")
    case True
    then show ?thesis by (simp add: p)
  next
    case False
    then have "k \<in> fst ` set acc" using Cons.prems p by auto
    then show ?thesis using Cons.IH False by (simp add: p)
  qed
qed

lemma categoryTotals_step_sum:
  "sum_list (map (ct_value \<circ> snd) (categoryTotals_step acc e)) =
   sum_list (map (ct_value \<circ> snd) acc) + expense_amount e"
proof (cases "name_or (expense_category e) ''Other'' \<in> fst ` set acc")
  case True
  then show ?thesis
    by (simp add: categoryTotals_step_def Let_def add_value_sum map_of_eq_None_iff)
next
  case False
  then show ?thesis
    by (simp add: categoryTotals_step_def Let_def add_value_sum map_of_eq_None_iff)
qed

lemma categoryTotals_foldl_sum:
  "sum_list (map (ct_value \<circ> snd) (foldl categoryTotals_step acc es)) =
   sum_list (map (ct_value \<circ> snd) acc) + sum_list (map expense_amount es)"
  by (induction es arbitrary: acc) (simp_all add: categoryTotals_step_sum)

lemma getExpensesByCategory_sum:
  "sum_list (map ct_value (getExpensesByCategory es)) = sum_list (map expense_amount es)"
  using categoryTotals_foldl_sum [of "[]" es]
  by (simp add: getExpensesByCategory_def comp_def)

lemma calculateMonthlySpending_east_of_utc:
  assumes "0 \<le> tza" and "tza < msPerDay"
  shows "calculateMonthlySpending tza now es =
     sum_list (map expense_amount
       (filter (\<lambda>e. month_of (expense_date e) = month_of (Day (LocalTime tza now)) \<and>
                     year_of (expense_date e) = year_of (Day (LocalTime tza now))) es))"
  using assms
  by (simp add: calculateMonthlySpending_def getMonth_def getFullYear_def Day_newDate Let_def
        foldl_add_amount)

lemma category_totals_partition_month:
  assumes "0 \<le> tza" and "tza < msPerDay"
    and "\<forall>e \<in> set es. month_of (expense_date e) = month_of (Day (LocalTime tza now)) \<and>
                        year_of (expense_date e) = year_of (Day (LocalTime tza now))"
  shows "sum_list (map ct_value (getExpensesByCategory es)) = calculateMonthlySpending tza now es"
proof -
  have "filter (\<lambda>e. month_of (expense_date e) = month_of (Day (LocalTime tza now)) \<and>
                     year_of (expense_date e) = year_of (Day (LocalTime tza now))) es = es"
    using assms(3) by (simp add: filter_id_conv)
  then show ?thesis
    using assms(1,2) by (simp add: getExpensesByCategory_sum calculateMonthlySpending_east_of_utc)
qed

lemma calculateMonthlySpending_empty: "calculateMonthlySpending tza now [] = 0"
  by (simp add: calculateMonthlySpending_def)

lemma spending_scenario:
  "calculateMonthlySpending 0 (newDate 19787)
     [sample_expense ''e1'' ''food'' 50 19783, sample_expense ''e2'' ''food'' 30 19784,
      sample_expense ''e3'' ''gas'' 20 19770] = 80 \<and>
   map ct_value (getExpensesByCategory
     [(sample_expense ''e1'' ''food'' 50 19783)
        \<lparr>expense_category := Some \<lparr>category_id = ''food'', category_user_id = ''u1'',
           category_name = ''Food'', category_color = ''#EF4444'', category_icon = ''Utensils'',
           category_created_at = []\<rparr>\<rparr>,
      (sample_expense ''e2'' ''food'' 30 19784)
        \<lparr>expense_category := Some \<lparr>category_id = ''food'', category_user_id = ''u1'',
           category_name = ''Food'', category_color = ''#EF4444'', category_icon = ''Utensils'',
           category_created_at = []\<rparr>\<rparr>,
      sample_expense ''e3'' ''gas'' 20 19770]) = [80, 20]"
  by code_simp

text \<open>
  C5. For a collection whose entries are all dated in the current month, the category totals
  should add up to the monthly spending, and the monthly spending should sum exactly the
  expenses dated in today's calendar month and year. The category totals always add up to
  the sum of all amounts (\<open>getExpensesByCategory_sum\<close>, not month-filtered), the monthly
  spending of no expenses is 0, and both readings of the month agree where local time is UTC
  or east of it (\<open>category_totals_partition_month\<close>). Five hours west of UTC, at local noon
  of 2024-03-05, two expenses of 50 and 30 dated 2024-03-01 and 2024-03-02 give a category
  total of 80 and a monthly spending of 30.
\<close>

theorem monthly_spending_west_of_utc:
  "civil_from_days (Day (LocalTime (-18000000) (newDate 19787 + 61200000))) = (2024, 3, 5) \<and>
   civil_from_days 19783 = (2024, 3, 1) \<and> civil_from_days 19784 = (2024, 3, 2) \<and>
   map ct_value (getExpensesByCategory
     [sample_expense ''e1'' ''food'' 50 19783, sample_expense ''e2'' ''food'' 30 19784]) = [80] \<and>
   calculateMonthlySpending (-18000000) (newDate 19787 + 61200000)
     [sample_expense ''e1'' ''food'' 50 19783, sample_expense ''e2'' ''food'' 30 19784] = 30"
  by code_simp

subsection \<open>A new budget's end date\<close>

lemma budget_dates_examples:
  "civil_from_days (bi_end_date (BudgetForm_handleSubmit 0 (newDate 19719 + 43200000)
       (newDate 19719 + 43200000) ''u1'' ''food'' 100 Weekly)) = (2024, 1, 4) \<and>
   civil_from_days 19719 = (2023, 12, 28) \<and>
   civil_from_days (bi_end_date (BudgetForm_handleSubmit 0 (newDate 19797 + 43200000)
       (newDate 19797 + 43200000) ''u1'' ''food'' 100 Monthly)) = (2024, 4, 15) \<and>
   civil_from_days 19797 = (2024, 3, 15)"
  by code_simp

text \<open>
  C3. The end date a budget is stored with should be its start date plus 7 days (weekly) or
  plus one calendar month (monthly), for every start date, month ends included. The form
  sets the month of today's date to the next month and keeps the day of the month: for a
  monthly budget created at noon UTC on 2023-01-31 the day 31 runs past the end of
  February, and the stored end date is 2023-03-03, where one calendar month after the start
  date is 2023-02-28.
\<close>

theorem monthly_end_date_overflows:
  "civil_from_days (bi_start_date (BudgetForm_handleSubmit 0 (newDate 19388 + 43200000)
       (newDate 19388 + 43200000) ''u1'' ''food'' 100 Monthly)) = (2023, 1, 31) \<and>
   civil_from_days (bi_end_date (BudgetForm_handleSubmit 0 (newDate 19388 + 43200000)
       (newDate 19388 + 43200000) ''u1'' ''food'' 100 Monthly)) = (2023, 3, 3) \<and>
   civil_from_days (spec_plus_one_month 19388) = (2023, 2, 28)"
  by code_simp

end
